theory Spec2Isabelle
  imports Complex_Main
begin

section \<open>The launch table\<close>

text \<open>
  The dashboard reads \<^verbatim>\<open>spacex_launch_dash.csv\<close> once into the data frame
  \<^verbatim>\<open>spacex_df\<close>. A row has the four columns the callbacks use: \<^verbatim>\<open>Launch Site\<close>,
  \<^verbatim>\<open>Payload Mass (kg)\<close>, \<^verbatim>\<open>Booster Version Category\<close> and \<^verbatim>\<open>class\<close> (here
  \<open>class_col\<close>). The payload mass is a number that the code compares and never
  computes with, so its type is any linearly ordered domain (\<open>int\<close>, \<open>rat\<close>,
  \<open>real\<close>); the class column holds integers. A missing cell (NaN) is not a
  value of these types.

  The data frame is a global of the module. The callbacks below take it as their
  first argument.
\<close>

record 'a launch =
  Launch_Site :: string
  Payload_Mass_kg :: 'a
  Booster_Version_Category :: string
  class_col :: int

type_synonym 'a dataframe = "'a launch list"

datatype error = ValueError

section \<open>The pandas operations the callbacks use\<close>

text \<open>
  \<^verbatim>\<open>df[mask]\<close> keeps the rows where the mask holds, in their order. The two
  masks of the program are an equality on the launch site and a window on the
  payload mass.
\<close>

definition site_df :: "'a dataframe \<Rightarrow> string \<Rightarrow> 'a dataframe" where
  "site_df df entered_site = filter (\<lambda>r. Launch_Site r = entered_site) df"

definition payload_df :: "'a::linorder dataframe \<Rightarrow> 'a \<Rightarrow> 'a \<Rightarrow> 'a dataframe" where
  "payload_df df low high =
     filter (\<lambda>r. Payload_Mass_kg r \<ge> low \<and> Payload_Mass_kg r \<le> high) df"

text \<open>
  \<^verbatim>\<open>Series.unique()\<close> returns the distinct values in order of first appearance.
\<close>

definition unique :: "'v list \<Rightarrow> 'v list" where
  "unique col = rev (remdups (rev col))"

text \<open>
  \<^verbatim>\<open>Series.value_counts()\<close> returns a series indexed by the distinct values,
  holding the number of occurrences of each, in descending order of the count
  (the most frequent value first). The sort is stable, so values with equal
  counts stay in order of first appearance. The series is a list of
  (index, value) pairs; \<open>series_index\<close> and \<open>series_values\<close> are its
  \<^verbatim>\<open>.index\<close> and \<^verbatim>\<open>.values\<close>.
\<close>

definition value_counts :: "'v list \<Rightarrow> ('v \<times> int) list" where
  "value_counts col =
     sort_key (\<lambda>p. - snd p) (map (\<lambda>v. (v, int (count_list col v))) (unique col))"

definition series_index :: "('v \<times> int) list \<Rightarrow> 'v list" where
  "series_index s = map fst s"

definition series_values :: "('v \<times> int) list \<Rightarrow> int list" where
  "series_values s = map snd s"

section \<open>The plotly express calls\<close>

text \<open>
  \<^verbatim>\<open>px.pie\<close> builds one pie trace holding a label and a value for every row it
  is given. Given arrays of different lengths it raises \<^verbatim>\<open>ValueError\<close>
  ("All arguments should have the same length"). Given two columns of one data
  frame the lengths agree.
\<close>

record pie_figure =
  pie_names :: "string list"
  pie_values :: "int list"
  pie_title :: string

definition px_pie :: "int list \<Rightarrow> string list \<Rightarrow> string \<Rightarrow> error + pie_figure" where
  "px_pie vals names title =
     (if length names \<noteq> length vals then Inl ValueError
      else Inr \<lparr>pie_names = names, pie_values = vals, pie_title = title\<rparr>)"

text \<open>
  A pie trace is drawn with one sector per distinct label: rows whose labels are
  equal are merged and their values summed. The sectors are listed here by first
  appearance of their label; the order in which they are drawn is not modelled.
\<close>

definition pie_sectors :: "pie_figure \<Rightarrow> (string \<times> int) list" where
  "pie_sectors fig =
     map (\<lambda>l. (l, sum_list (map snd (filter (\<lambda>p. fst p = l) (zip (pie_names fig) (pie_values fig))))))
       (unique (pie_names fig))"

text \<open>
  \<^verbatim>\<open>px.scatter\<close> draws one point for every row of the data frame it is given,
  with the columns named by \<^verbatim>\<open>x\<close>, \<^verbatim>\<open>y\<close>, \<^verbatim>\<open>color\<close>, \<^verbatim>\<open>size\<close> and
  \<^verbatim>\<open>hover_data\<close> as the point's attributes. A marker size is a number that is
  at least 0: a negative one is refused with \<^verbatim>\<open>ValueError\<close>. An empty data
  frame gives a figure without points. The grouping of the points into one trace
  per colour is the library's and is not modelled.
\<close>

record 'a scatter_point =
  point_x :: 'a
  point_y :: int
  point_color :: string
  point_size :: 'a
  point_hover_data :: "string list"

record 'a scatter_figure =
  scatter_points :: "'a scatter_point list"
  scatter_title :: string

definition plot_row ::
  "('a launch \<Rightarrow> 'a) \<Rightarrow> ('a launch \<Rightarrow> int) \<Rightarrow> ('a launch \<Rightarrow> string) \<Rightarrow> ('a launch \<Rightarrow> 'a) \<Rightarrow>
   ('a launch \<Rightarrow> string) list \<Rightarrow> 'a launch \<Rightarrow> 'a scatter_point" where
  "plot_row x y color size_col hover_data r =
     \<lparr>point_x = x r, point_y = y r, point_color = color r, point_size = size_col r,
      point_hover_data = map (\<lambda>column. column r) hover_data\<rparr>"

definition px_scatter ::
  "'a::linordered_idom dataframe \<Rightarrow> ('a launch \<Rightarrow> 'a) \<Rightarrow> ('a launch \<Rightarrow> int) \<Rightarrow>
   ('a launch \<Rightarrow> string) \<Rightarrow> ('a launch \<Rightarrow> 'a) \<Rightarrow> ('a launch \<Rightarrow> string) list \<Rightarrow> string \<Rightarrow>
   error + 'a scatter_figure" where
  "px_scatter data_frame x y color size_col hover_data title =
     (if list_ex (\<lambda>r. size_col r < 0) data_frame then Inl ValueError
      else Inr \<lparr>scatter_points = map (plot_row x y color size_col hover_data) data_frame,
                scatter_title = title\<rparr>)"

section \<open>The pie chart callback\<close>

text \<open>
  \<^verbatim>\<open>get_pie_chart(entered_site)\<close>, lines 73 to 100. \<open>site_pie_values\<close> and
  \<open>site_pie_names\<close> are the \<^verbatim>\<open>values=\<close> and \<^verbatim>\<open>names=\<close> arguments of the
  second \<^verbatim>\<open>px.pie\<close> call. \<^verbatim>\<open>fig.update_layout\<close> sets font sizes and the title
  position only and is left out.
\<close>

definition success_counts :: "'a dataframe \<Rightarrow> string \<Rightarrow> (int \<times> int) list" where
  "success_counts spacex_df entered_site =
     (let filtered_df = site_df spacex_df entered_site
      in value_counts (map class_col filtered_df))"

definition site_pie_values :: "'a dataframe \<Rightarrow> string \<Rightarrow> int list" where
  "site_pie_values spacex_df entered_site =
     series_values (success_counts spacex_df entered_site)"

definition site_pie_names :: "'a dataframe \<Rightarrow> string \<Rightarrow> string list" where
  "site_pie_names spacex_df entered_site =
     (if 0 \<in> set (series_index (success_counts spacex_df entered_site))
      then [''Failed'', ''Success''] else [''Success''])"

definition get_pie_chart :: "'a dataframe \<Rightarrow> string \<Rightarrow> error + pie_figure" where
  "get_pie_chart spacex_df entered_site =
     (if entered_site = ''ALL''
      then px_pie (map class_col spacex_df) (map Launch_Site spacex_df)
             ''Total Success Launches By Site''
      else px_pie (site_pie_values spacex_df entered_site)
             (site_pie_names spacex_df entered_site)
             (''Total Success Launches for site '' @ entered_site))"

section \<open>The scatter chart callback\<close>

text \<open>
  \<^verbatim>\<open>get_scatter_chart(entered_site, payload_range)\<close>, lines 107 to 151.
  \<^verbatim>\<open>low, high = payload_range\<close> raises \<^verbatim>\<open>ValueError\<close> unless the range has
  exactly two entries. The layout and grid updates are left out.
\<close>

fun get_scatter_chart ::
  "'a::linordered_idom dataframe \<Rightarrow> string \<Rightarrow> 'a list \<Rightarrow> error + 'a scatter_figure" where
  "get_scatter_chart spacex_df entered_site [low, high] =
     (let filtered_df = payload_df spacex_df low high
      in if entered_site = ''ALL''
         then px_scatter filtered_df Payload_Mass_kg class_col Booster_Version_Category
                Payload_Mass_kg [Launch_Site]
                ''Correlation between Payload and Success for all Sites''
         else
           (let site_filtered_df = site_df filtered_df entered_site
            in px_scatter site_filtered_df Payload_Mass_kg class_col Booster_Version_Category
                 Payload_Mass_kg []
                 (''Correlation between Payload and Success for site '' @ entered_site)))"
| "get_scatter_chart spacex_df entered_site payload_range = Inl ValueError"

section \<open>The callbacks as the framework runs them\<close>

text \<open>
  The two \<^verbatim>\<open>@app.callback\<close> decorators (lines 71 and 104) bind the pie chart to
  the value of \<^verbatim>\<open>site-dropdown\<close> alone, and the scatter chart to the values of
  \<^verbatim>\<open>site-dropdown\<close> and \<^verbatim>\<open>payload-slider\<close>.
\<close>

record 'a controls =
  site_dropdown :: string
  payload_slider :: "'a list"

definition update_figures ::
  "'a::linordered_idom dataframe \<Rightarrow> 'a controls \<Rightarrow>
   (error + pie_figure) \<times> (error + 'a scatter_figure)" where
  "update_figures spacex_df c =
     (get_pie_chart spacex_df (site_dropdown c),
      get_scatter_chart spacex_df (site_dropdown c) (payload_slider c))"

section \<open>The module's objects\<close>

text \<open>
  The figure a callback builds is an object that the callback then changes in
  place: \<^verbatim>\<open>fig.update_layout\<close>, \<^verbatim>\<open>fig.update_xaxes\<close> and
  \<^verbatim>\<open>fig.update_yaxes\<close> write into it before it is returned. The data frame
  \<^verbatim>\<open>spacex_df\<close> is an object too, reached through the module's global of that
  name. Both live in one heap, a list of objects addressed by position; a new
  object goes to the end of the list. The frames and series a callback computes on
  the way (\<^verbatim>\<open>filtered_df\<close>, \<^verbatim>\<open>success_counts\<close>, \<^verbatim>\<open>site_filtered_df\<close>) are
  new objects that nothing writes to, and stay values.

  A layout is a list of properties. A property is stored under the keyword the
  source passes it by; the library's reading of a keyword such as
  \<^verbatim>\<open>title_font_size\<close> as a path is not modelled.
\<close>

datatype property =
    Number rat
  | Text string
  | Flag bool
  | Numbers "rat list"
  | Texts "string list"
  | Props "(string \<times> property) list"

type_synonym layout = "(string \<times> property) list"

datatype 'a obj =
    DataFrame "'a dataframe"
  | Figure "pie_figure + 'a scatter_figure" layout

record 'a module =
  heap :: "'a obj list"
  spacex_df_ref :: nat

text \<open>
  Line 11, \<^verbatim>\<open>spacex_df = pd.read_csv(...)\<close>: the module starts with the table as
  its only object.
\<close>

definition load_module :: "'a dataframe \<Rightarrow> 'a module" where
  "load_module table = \<lparr>heap = [DataFrame table], spacex_df_ref = 0\<rparr>"

text \<open>
  Reading a data frame through a reference. \<open>None\<close> stands for a reference that
  does not lead to a data frame, which the running module never holds.
\<close>

definition frame_at :: "'a obj list \<Rightarrow> nat \<Rightarrow> 'a dataframe option" where
  "frame_at h a =
     (if a < length h
      then (case h ! a of DataFrame df \<Rightarrow> Some df | Figure d lay \<Rightarrow> None)
      else None)"

definition new_figure ::
  "'a obj list \<Rightarrow> pie_figure + 'a scatter_figure \<Rightarrow> nat \<times> 'a obj list" where
  "new_figure h d = (length h, h @ [Figure d []])"

fun set_prop :: "string \<Rightarrow> property \<Rightarrow> layout \<Rightarrow> layout" where
  "set_prop k v [] = [(k, v)]"
| "set_prop k v (p # lay) = (if fst p = k then (k, v) # lay else p # set_prop k v lay)"

definition set_props :: "layout \<Rightarrow> layout \<Rightarrow> layout" where
  "set_props kwargs lay = fold (\<lambda>p. set_prop (fst p) (snd p)) kwargs lay"

definition set_axis_props :: "string \<Rightarrow> layout \<Rightarrow> layout \<Rightarrow> layout" where
  "set_axis_props axis kwargs lay =
     (case map_of lay axis of
        Some (Props old) \<Rightarrow> set_prop axis (Props (set_props kwargs old)) lay
      | _ \<Rightarrow> set_prop axis (Props kwargs) lay)"

text \<open>
  The three methods write the changed layout back into the figure object at the
  given address, and into no other object.
\<close>

definition write_layout ::
  "(layout \<Rightarrow> layout) \<Rightarrow> nat \<Rightarrow> 'a obj list \<Rightarrow> 'a obj list option" where
  "write_layout f fig h =
     (if fig < length h
      then (case h ! fig of
              Figure d lay \<Rightarrow> Some (h[fig := Figure d (f lay)])
            | DataFrame df \<Rightarrow> None)
      else None)"

definition update_layout :: "nat \<Rightarrow> layout \<Rightarrow> 'a obj list \<Rightarrow> 'a obj list option" where
  "update_layout fig kwargs h = write_layout (set_props kwargs) fig h"

definition update_xaxes :: "nat \<Rightarrow> layout \<Rightarrow> 'a obj list \<Rightarrow> 'a obj list option" where
  "update_xaxes fig kwargs h = write_layout (set_axis_props ''xaxis'' kwargs) fig h"

definition update_yaxes :: "nat \<Rightarrow> layout \<Rightarrow> 'a obj list \<Rightarrow> 'a obj list option" where
  "update_yaxes fig kwargs h = write_layout (set_axis_props ''yaxis'' kwargs) fig h"

text \<open>
  \<^verbatim>\<open>get_pie_chart\<close> as it runs in the module, lines 73 to 100: it reads the
  global \<^verbatim>\<open>spacex_df\<close>, builds the figure of \<open>get_pie_chart\<close> from the table it
  finds there, updates the figure's layout in place (lines 94 to 98) and returns
  the reference to it. Where \<^verbatim>\<open>px.pie\<close> raises, no figure is built.
\<close>

definition run_get_pie_chart ::
  "'a module \<Rightarrow> string \<Rightarrow> ((error + nat) \<times> 'a module) option" where
  "run_get_pie_chart m entered_site =
     (case frame_at (heap m) (spacex_df_ref m) of
        None \<Rightarrow> None
      | Some spacex_df \<Rightarrow>
          (case get_pie_chart spacex_df entered_site of
             Inl e \<Rightarrow> Some (Inl e, m)
           | Inr d \<Rightarrow>
               (case new_figure (heap m) (Inl d) of
                  (fig, h) \<Rightarrow>
                    (case update_layout fig
                            [(''title_font_size'', Number 20),
                             (''title_x'', Number (1 / 2)),
                             (''font'', Props [(''size'', Number 14)])] h of
                       None \<Rightarrow> None
                     | Some h' \<Rightarrow> Some (Inr fig, m\<lparr>heap := h'\<rparr>)))))"

text \<open>
  \<^verbatim>\<open>get_scatter_chart\<close> as it runs in the module, lines 107 to 151, with the
  layout update of lines 138 to 145 and the two grid updates of lines 148 and 149.
\<close>

definition run_get_scatter_chart ::
  "'a::linordered_idom module \<Rightarrow> string \<Rightarrow> 'a list \<Rightarrow> ((error + nat) \<times> 'a module) option" where
  "run_get_scatter_chart m entered_site payload_range =
     (case frame_at (heap m) (spacex_df_ref m) of
        None \<Rightarrow> None
      | Some spacex_df \<Rightarrow>
          (case get_scatter_chart spacex_df entered_site payload_range of
             Inl e \<Rightarrow> Some (Inl e, m)
           | Inr d \<Rightarrow>
               (case new_figure (heap m) (Inr d) of
                  (fig, h) \<Rightarrow>
                    (case update_layout fig
                            [(''title_font_size'', Number 16),
                             (''title_x'', Number (1 / 2)),
                             (''xaxis_title'', Text ''Payload Mass (kg)''),
                             (''yaxis_title'', Text ''Launch Outcome''),
                             (''font'', Props [(''size'', Number 12)]),
                             (''yaxis'', Props [(''tickmode'', Text ''array''),
                                                (''tickvals'', Numbers [0, 1]),
                                                (''ticktext'', Texts [''Failure'', ''Success''])])] h of
                       None \<Rightarrow> None
                     | Some h1 \<Rightarrow>
                         (case update_xaxes fig
                                 [(''showgrid'', Flag True), (''gridwidth'', Number 1),
                                  (''gridcolor'', Text ''LightGray'')] h1 of
                            None \<Rightarrow> None
                          | Some h2 \<Rightarrow>
                              (case update_yaxes fig
                                      [(''showgrid'', Flag True), (''gridwidth'', Number 1),
                                       (''gridcolor'', Text ''LightGray'')] h2 of
                                 None \<Rightarrow> None
                               | Some h3 \<Rightarrow> Some (Inr fig, m\<lparr>heap := h3\<rparr>)))))))"

text \<open>
  The framework calls a callback and sends what it returned: the error, or the
  figure object the returned reference leads to after the call. \<open>serve\<close> runs a
  sequence of calls, each in the module as the one before left it, and collects
  what is sent.
\<close>

datatype 'a callback = Pie_Chart string | Scatter_Chart string "'a list"

fun invoke ::
  "'a::linordered_idom module \<Rightarrow> 'a callback \<Rightarrow> ((error + nat) \<times> 'a module) option" where
  "invoke m (Pie_Chart entered_site) = run_get_pie_chart m entered_site"
| "invoke m (Scatter_Chart entered_site payload_range) =
     run_get_scatter_chart m entered_site payload_range"

fun returned :: "'a module \<Rightarrow> error + nat \<Rightarrow> (error + 'a obj) option" where
  "returned m (Inl e) = Some (Inl e)"
| "returned m (Inr fig) = (if fig < length (heap m) then Some (Inr (heap m ! fig)) else None)"

fun serve ::
  "'a::linordered_idom module \<Rightarrow> 'a callback list \<Rightarrow> ((error + 'a obj) list \<times> 'a module) option" where
  "serve m [] = Some ([], m)"
| "serve m (c # cs) =
     (case invoke m c of
        None \<Rightarrow> None
      | Some (r, m') \<Rightarrow>
          (case returned m' r of
             None \<Rightarrow> None
           | Some sent \<Rightarrow>
               (case serve m' cs of
                  None \<Rightarrow> None
                | Some (rest, m'') \<Rightarrow> Some (sent # rest, m''))))"


section \<open>Example tables\<close>

text \<open>The table of the specification's example.\<close>

definition example_table :: "int dataframe" where
  "example_table =
     [\<lparr>Launch_Site = ''SiteA'', Payload_Mass_kg = 500, Booster_Version_Category = ''v1'', class_col = 1\<rparr>,
      \<lparr>Launch_Site = ''SiteA'', Payload_Mass_kg = 700, Booster_Version_Category = ''v1'', class_col = 0\<rparr>,
      \<lparr>Launch_Site = ''SiteB'', Payload_Mass_kg = 600, Booster_Version_Category = ''v2'', class_col = 1\<rparr>]"

text \<open>
  The same table with a second success at SiteA and a site whose only launch
  failed.
\<close>

definition second_table :: "int dataframe" where
  "second_table =
     example_table @
     [\<lparr>Launch_Site = ''SiteA'', Payload_Mass_kg = 900, Booster_Version_Category = ''v1'', class_col = 1\<rparr>,
      \<lparr>Launch_Site = ''SiteC'', Payload_Mass_kg = 800, Booster_Version_Category = ''v2'', class_col = 0\<rparr>]"

text \<open>A sequence of calls in which the first and the last are the same call.\<close>

definition example_calls :: "int callback list" where
  "example_calls = [Pie_Chart ''SiteA'', Scatter_Chart ''ALL'' [0, 650], Pie_Chart ''SiteA'']"

section \<open>Facts about the pandas operations\<close>

lemma set_unique: "set (unique col) = set col"
  by (simp add: unique_def)

lemma distinct_unique: "distinct (unique col)"
  by (simp add: unique_def)

lemma length_value_counts: "length (value_counts col) = card (set col)"
  by (simp add: value_counts_def unique_def distinct_card [symmetric])

lemma set_index_value_counts: "set (series_index (value_counts col)) = set col"
proof -
  have "set (map fst (sort_key (\<lambda>p. - snd p) (map (\<lambda>v. (v, int (count_list col v))) (unique col))))
      = fst ` set (map (\<lambda>v. (v, int (count_list col v))) (unique col))"
    by simp
  also have "\<dots> = set (unique col)"
    by (simp add: image_image)
  finally show ?thesis
    by (simp add: series_index_def value_counts_def set_unique)
qed

lemma sum_list_insort_key:
  "sum_list (map g (insort_key f x xs)) = g x + sum_list (map g xs)"
  for g :: "'b \<Rightarrow> int"
  by (induction xs) auto

lemma sum_list_sort_key:
  "sum_list (map g (sort_key f xs)) = sum_list (map g xs)"
  for g :: "'b \<Rightarrow> int"
  by (induction xs) (auto simp: sum_list_insort_key)

lemma sum_count_list_unique:
  "sum_list (map (\<lambda>v. int (count_list col v)) (unique col)) = int (length col)"
proof -
  have "sum_list (map (count_list col) (unique col)) = sum (count_list col) (set (unique col))"
    by (rule sum_list_distinct_conv_sum_set [OF distinct_unique])
  also have "\<dots> = length col"
    by (simp add: set_unique sum_count_set)
  finally have "sum_list (map (count_list col) (unique col)) = length col" .
  then have "int (sum_list (map (count_list col) (unique col))) = int (length col)"
    by simp
  then show ?thesis
    by (simp add: comp_def flip: sum_list_of_nat)
qed

lemma sum_value_counts:
  "sum_list (series_values (value_counts col)) = int (length col)"
  unfolding series_values_def value_counts_def
  by (simp add: sum_list_sort_key comp_def sum_count_list_unique)

lemma distinct_pair:
  assumes "distinct xs" and "set xs = {a, b}" and "a \<noteq> b"
  shows "xs = [a, b] \<or> xs = [b, a]"
proof -
  from assms have "length xs = 2"
    by (simp add: distinct_card [symmetric])
  then obtain x y where xs: "xs = [x, y]"
    by (auto simp: numeral_2_eq_2 length_Suc_conv)
  with assms(2) have "{x, y} = {a, b}"
    by simp
  with xs show ?thesis
    by (auto simp: doubleton_eq_iff)
qed

text \<open>
  When a column holds both classes and more ones than zeros, the series
  \<open>value_counts\<close> returns starts with the count of the ones.
\<close>

lemma value_counts_more_successes:
  fixes col :: "int list"
  assumes "set col = {0, 1}" and "count_list col 0 < count_list col 1"
  shows "value_counts col = [(1, int (count_list col 1)), (0, int (count_list col 0))]"
proof -
  have "unique col = [0, 1] \<or> unique col = [1, 0]"
    using distinct_pair [OF distinct_unique, of col 0 1] assms(1)
    by (simp add: set_unique)
  with assms(2) show ?thesis
    by (auto simp: value_counts_def)
qed

section \<open>The pie chart for all sites\<close>

lemma get_pie_chart_ALL:
  "get_pie_chart spacex_df ''ALL'' =
     Inr \<lparr>pie_names = map Launch_Site spacex_df, pie_values = map class_col spacex_df,
          pie_title = ''Total Success Launches By Site''\<rparr>"
  by (simp add: get_pie_chart_def px_pie_def)

lemma sector_sum:
  "\<forall>r\<in>set df. class_col r \<in> {0, 1} \<Longrightarrow>
   sum_list (map snd (filter (\<lambda>p. fst p = S) (zip (map Launch_Site df) (map class_col df))))
     = int (length (filter (\<lambda>r. Launch_Site r = S \<and> class_col r = 1) df))"
  by (induction df) auto

lemma map_of_tabulate: "k \<in> set ks \<Longrightarrow> map_of (map (\<lambda>l. (l, f l)) ks) k = Some (f k)"
  by (induction ks) auto

text \<open>
  Claim C1. On a table whose classes are all 0 or 1, \<open>get_pie_chart\<close> called
  with "ALL" returns a figure that has one sector for each distinct launch site
  and no other sector, and the value of the sector of a site is the number of rows
  with that site and class 1.
\<close>

theorem all_sites_pie:
  assumes "\<forall>r\<in>set spacex_df. class_col r \<in> {0, 1}"
  shows "\<exists>fig. get_pie_chart spacex_df ''ALL'' = Inr fig
           \<and> distinct (map fst (pie_sectors fig))
           \<and> set (map fst (pie_sectors fig)) = Launch_Site ` set spacex_df
           \<and> (\<forall>S\<in>Launch_Site ` set spacex_df.
                 map_of (pie_sectors fig) S
                   = Some (int (length (filter (\<lambda>r. Launch_Site r = S \<and> class_col r = 1) spacex_df))))"
proof -
  let ?fig = "\<lparr>pie_names = map Launch_Site spacex_df, pie_values = map class_col spacex_df,
          pie_title = ''Total Success Launches By Site''\<rparr>"
  have keys: "map fst (pie_sectors ?fig) = unique (map Launch_Site spacex_df)"
    by (simp add: pie_sectors_def comp_def)
  have d: "distinct (map fst (pie_sectors ?fig))"
    unfolding keys by (rule distinct_unique)
  have s: "set (map fst (pie_sectors ?fig)) = Launch_Site ` set spacex_df"
    unfolding keys by (simp add: set_unique)
  have v: "map_of (pie_sectors ?fig) S
            = Some (int (length (filter (\<lambda>r. Launch_Site r = S \<and> class_col r = 1) spacex_df)))"
    if "S \<in> Launch_Site ` set spacex_df" for S
  proof -
    from that have "S \<in> set (unique (map Launch_Site spacex_df))"
      by (simp add: set_unique)
    then have "map_of (pie_sectors ?fig) S
       = Some (sum_list (map snd (filter (\<lambda>p. fst p = S)
            (zip (map Launch_Site spacex_df) (map class_col spacex_df)))))"
      unfolding pie_sectors_def by (simp add: map_of_tabulate)
    then show ?thesis
      by (simp only: sector_sum [OF assms])
  qed
  from d s v get_pie_chart_ALL [of spacex_df] show ?thesis
    by blast
qed

theorem all_sites_pie_witness:
  "\<exists>fig. get_pie_chart example_table ''ALL'' = Inr fig
     \<and> map_of (pie_sectors fig) ''SiteA'' = Some 1
     \<and> map_of (pie_sectors fig) ''SiteB'' = Some 1"
proof -
  have h: "\<forall>r\<in>set example_table. class_col r \<in> {0, 1}"
    by (simp add: example_table_def)
  from all_sites_pie [OF h] obtain fig where
    f: "get_pie_chart example_table ''ALL'' = Inr fig" and
    v: "\<forall>S\<in>Launch_Site ` set example_table.
          map_of (pie_sectors fig) S
            = Some (int (length (filter (\<lambda>r. Launch_Site r = S \<and> class_col r = 1) example_table)))"
    by blast
  have a: "map_of (pie_sectors fig) ''SiteA'' = Some 1"
    using v by (simp add: example_table_def)
  have b: "map_of (pie_sectors fig) ''SiteB'' = Some 1"
    using v by (simp add: example_table_def)
  from f a b show ?thesis by blast
qed

section \<open>The pie chart for one site\<close>

text \<open>
  With both classes at the site and more successes than failures, the figure
  pairs the label "Failed" with the number of successes and the label "Success"
  with the number of failures.
\<close>

lemma more_successes_mislabelled:
  assumes "entered_site \<noteq> ''ALL''"
    and "set (map class_col (site_df spacex_df entered_site)) = {0, 1}"
    and "count_list (map class_col (site_df spacex_df entered_site)) 0
           < count_list (map class_col (site_df spacex_df entered_site)) 1"
  shows "get_pie_chart spacex_df entered_site =
           Inr \<lparr>pie_names = [''Failed'', ''Success''],
                pie_values = [int (count_list (map class_col (site_df spacex_df entered_site)) 1),
                              int (count_list (map class_col (site_df spacex_df entered_site)) 0)],
                pie_title = ''Total Success Launches for site '' @ entered_site\<rparr>"
proof -
  have "success_counts spacex_df entered_site =
          [(1, int (count_list (map class_col (site_df spacex_df entered_site)) 1)),
           (0, int (count_list (map class_col (site_df spacex_df entered_site)) 0))]"
    unfolding success_counts_def Let_def
    by (rule value_counts_more_successes [OF assms(2) assms(3)])
  with assms(1) show ?thesis
    by (simp add: get_pie_chart_def px_pie_def site_pie_values_def site_pie_names_def
        series_values_def series_index_def)
qed

text \<open>
  Claim C2, at a table where SiteA has two successes and one failure. The labels
  are "Failed", "Success" in that order, and the count array is 2 followed by 1:
  the count of class 1 comes first, under the label "Failed", where the claim has
  the count of class 0.
\<close>

theorem site_labels_misaligned:
  "get_pie_chart second_table ''SiteA'' =
     Inr \<lparr>pie_names = [''Failed'', ''Success''], pie_values = [2, 1],
          pie_title = ''Total Success Launches for site SiteA''\<rparr>
   \<and> count_list (map class_col (site_df second_table ''SiteA'')) 0 = 1
   \<and> count_list (map class_col (site_df second_table ''SiteA'')) 1 = 2"
  by code_simp

lemma failures_only_labels:
  assumes "entered_site \<noteq> ''ALL''"
    and "set (map class_col (site_df spacex_df entered_site)) = {0}"
  shows "length (site_pie_values spacex_df entered_site) = 1
         \<and> site_pie_names spacex_df entered_site = [''Failed'', ''Success'']"
  using assms(2)
  by (simp add: site_pie_values_def site_pie_names_def success_counts_def series_values_def
      length_value_counts set_index_value_counts del: set_map)

text \<open>
  At a site other than "ALL" where only class 0 occurs, \<^verbatim>\<open>px.pie\<close> is handed one
  count and two labels, and the callback raises.
\<close>

lemma failures_only_pie_error:
  assumes "entered_site \<noteq> ''ALL''"
    and "set (map class_col (site_df spacex_df entered_site)) = {0}"
  shows "get_pie_chart spacex_df entered_site = Inl ValueError"
  using failures_only_labels [OF assms] assms(1)
  by (simp add: get_pie_chart_def px_pie_def)

text \<open>
  Claim C3, at SiteC of the second table, where the only launch failed. The
  claim has a count array of one entry under the single label "Success". The
  callback computes the one count, gives it the two labels "Failed", "Success",
  and raises instead of returning a pie chart.
\<close>

theorem failures_only_raises:
  "set (map class_col (site_df second_table ''SiteC'')) = {0}
   \<and> site_pie_values second_table ''SiteC'' = [1]
   \<and> site_pie_names second_table ''SiteC'' = [''Failed'', ''Success'']
   \<and> get_pie_chart second_table ''SiteC'' = Inl ValueError"
proof -
  have "set (map class_col (site_df second_table ''SiteC'')) = {0}"
    by (simp add: site_df_def second_table_def example_table_def)
  moreover have "site_pie_values second_table ''SiteC'' = [1]"
    by code_simp
  moreover have "site_pie_names second_table ''SiteC'' = [''Failed'', ''Success'']"
    by code_simp
  moreover have "get_pie_chart second_table ''SiteC'' = Inl ValueError"
    by code_simp
  ultimately show ?thesis by simp
qed

text \<open>
  Claim C7. For a site other than "ALL", the count array that \<open>get_pie_chart\<close>
  hands to the chart sums to the number of rows of the table whose launch site is
  the entered site, and every figure the callback returns carries counts with
  that sum.
\<close>

theorem site_counts_sum:
  "entered_site \<noteq> ''ALL'' \<Longrightarrow>
     sum_list (site_pie_values spacex_df entered_site)
       = int (length (filter (\<lambda>r. Launch_Site r = entered_site) spacex_df))
     \<and> (\<forall>fig. get_pie_chart spacex_df entered_site = Inr fig \<longrightarrow>
           sum_list (pie_values fig)
             = int (length (filter (\<lambda>r. Launch_Site r = entered_site) spacex_df)))"
proof -
  assume site: "entered_site \<noteq> ''ALL''"
  have counts: "sum_list (site_pie_values spacex_df entered_site)
      = int (length (filter (\<lambda>r. Launch_Site r = entered_site) spacex_df))"
    by (simp add: site_pie_values_def success_counts_def site_df_def sum_value_counts)
  have "sum_list (pie_values fig)
      = int (length (filter (\<lambda>r. Launch_Site r = entered_site) spacex_df))"
    if "get_pie_chart spacex_df entered_site = Inr fig" for fig
  proof -
    from that site have "pie_values fig = site_pie_values spacex_df entered_site"
      by (auto simp: get_pie_chart_def px_pie_def split: if_splits)
    with counts show ?thesis by simp
  qed
  with counts show ?thesis by blast
qed

theorem site_counts_sum_witness:
  "sum_list (site_pie_values example_table ''SiteA'') = 2
   \<and> get_pie_chart example_table ''SiteA'' =
       Inr \<lparr>pie_names = [''Failed'', ''Success''], pie_values = [1, 1],
            pie_title = ''Total Success Launches for site SiteA''\<rparr>
   \<and> sum_list (pie_values \<lparr>pie_names = [''Failed'', ''Success''], pie_values = [1, 1],
            pie_title = ''Total Success Launches for site SiteA''\<rparr>) = 2"
proof -
  have h: "''SiteA'' \<noteq> ''ALL''" by simp
  have n: "int (length (filter (\<lambda>r. Launch_Site r = ''SiteA'') example_table)) = 2"
    by (simp add: example_table_def)
  have r: "get_pie_chart example_table ''SiteA'' =
     Inr \<lparr>pie_names = [''Failed'', ''Success''], pie_values = [1, 1],
          pie_title = ''Total Success Launches for site SiteA''\<rparr>"
    by code_simp
  from site_counts_sum [OF h, of example_table] n r show ?thesis
    by simp
qed

section \<open>A site that is not in the table\<close>

lemma unknown_site_pie_error:
  assumes "entered_site \<noteq> ''ALL''" and "entered_site \<notin> Launch_Site ` set spacex_df"
  shows "get_pie_chart spacex_df entered_site = Inl ValueError"
proof -
  from assms(2) have "site_df spacex_df entered_site = []"
    by (auto simp: site_df_def filter_empty_conv)
  with assms(1) show ?thesis
    by (simp add: get_pie_chart_def px_pie_def site_pie_values_def site_pie_names_def
        success_counts_def value_counts_def unique_def series_values_def series_index_def)
qed

lemma unknown_site_scatter_empty:
  assumes "entered_site \<noteq> ''ALL''" and "entered_site \<notin> Launch_Site ` set spacex_df"
  shows "get_scatter_chart spacex_df entered_site [low, high] =
           Inr \<lparr>scatter_points = [],
                scatter_title = ''Correlation between Payload and Success for site '' @ entered_site\<rparr>"
proof -
  from assms(2) have "site_df (payload_df spacex_df low high) entered_site = []"
    by (auto simp: site_df_def payload_df_def filter_empty_conv)
  with assms(1) show ?thesis
    by (simp add: px_scatter_def)
qed

text \<open>
  Claim C6, at the example table and the site "SiteX", which is not in it. The
  scatter callback returns a figure without points; the pie callback hands
  \<^verbatim>\<open>px.pie\<close> no count and the one label "Success", and raises.
\<close>

theorem unknown_site_pie_raises:
  "''SiteX'' \<notin> set (map Launch_Site example_table)
   \<and> site_pie_values example_table ''SiteX'' = []
   \<and> site_pie_names example_table ''SiteX'' = [''Success'']
   \<and> get_pie_chart example_table ''SiteX'' = Inl ValueError"
  by code_simp

section \<open>The scatter chart\<close>

lemma px_scatter_ok:
  "\<forall>r\<in>set df. 0 \<le> size_col r \<Longrightarrow>
   px_scatter df x y color size_col hover_data title =
     Inr \<lparr>scatter_points = map (plot_row x y color size_col hover_data) df, scatter_title = title\<rparr>"
  by (auto simp: px_scatter_def list_ex_iff)

lemma filter_window_site:
  "site_df (payload_df df low high) s
   = filter (\<lambda>r. low \<le> Payload_Mass_kg r \<and> Payload_Mass_kg r \<le> high \<and> Launch_Site r = s) df"
  unfolding site_df_def payload_df_def
  by (induction df) auto

lemma scatter_points_of_chart:
  assumes "get_scatter_chart spacex_df entered_site [low, high] = Inr fig"
  shows "scatter_points fig =
      map (plot_row Payload_Mass_kg class_col Booster_Version_Category Payload_Mass_kg
             (if entered_site = ''ALL'' then [Launch_Site] else []))
        (filter (\<lambda>r. low \<le> Payload_Mass_kg r \<and> Payload_Mass_kg r \<le> high
                    \<and> (entered_site \<noteq> ''ALL'' \<longrightarrow> Launch_Site r = entered_site))
           spacex_df)"
proof (cases "entered_site = ''ALL''")
  case True
  with assms show ?thesis
    by (auto simp: px_scatter_def Let_def payload_df_def split: if_splits)
next
  case False
  with assms show ?thesis
    by (auto simp: px_scatter_def Let_def filter_window_site split: if_splits)
qed

lemma scatter_chart_returns:
  assumes "\<forall>r\<in>set spacex_df. 0 \<le> Payload_Mass_kg r"
  shows "\<exists>fig. get_scatter_chart spacex_df entered_site [low, high] = Inr fig"
proof (cases "entered_site = ''ALL''")
  case True
  from assms have "\<forall>r\<in>set (payload_df spacex_df low high). 0 \<le> Payload_Mass_kg r"
    by (simp add: payload_df_def)
  from px_scatter_ok [OF this] True show ?thesis
    by simp
next
  case False
  from assms have "\<forall>r\<in>set (site_df (payload_df spacex_df low high) entered_site).
      0 \<le> Payload_Mass_kg r"
    by (simp add: payload_df_def site_df_def)
  from px_scatter_ok [OF this] False show ?thesis
    by simp
qed

text \<open>
  Claim C4. Every figure \<open>get_scatter_chart\<close> returns for a range [low, high]
  has exactly one point for each row with low \<le> payload \<le> high and, when the
  site is not "ALL", with that launch site, in the order of the table, and no
  other point. On a table whose payload masses are not negative, which is the
  launch table of the data model, the callback returns a figure.
\<close>

theorem scatter_rows_exact:
  "(\<forall>fig. get_scatter_chart spacex_df entered_site [low, high] = Inr fig \<longrightarrow>
      scatter_points fig =
        map (plot_row Payload_Mass_kg class_col Booster_Version_Category Payload_Mass_kg
               (if entered_site = ''ALL'' then [Launch_Site] else []))
          (filter (\<lambda>r. low \<le> Payload_Mass_kg r \<and> Payload_Mass_kg r \<le> high
                      \<and> (entered_site \<noteq> ''ALL'' \<longrightarrow> Launch_Site r = entered_site))
             spacex_df))
   \<and> ((\<forall>r\<in>set spacex_df. 0 \<le> Payload_Mass_kg r) \<longrightarrow>
        (\<exists>fig. get_scatter_chart spacex_df entered_site [low, high] = Inr fig))"
  using scatter_points_of_chart scatter_chart_returns by blast

theorem scatter_rows_exact_witness:
  "\<exists>fig. get_scatter_chart example_table ''SiteA'' [0, 650] = Inr fig
     \<and> scatter_points fig =
         [\<lparr>point_x = 500, point_y = 1, point_color = ''v1'', point_size = 500,
           point_hover_data = []\<rparr>]"
proof -
  have h: "\<forall>r\<in>set example_table. 0 \<le> Payload_Mass_kg r"
    by (simp add: example_table_def)
  note t = scatter_rows_exact [of example_table "''SiteA''" 0 650]
  from t h obtain fig where f: "get_scatter_chart example_table ''SiteA'' [0, 650] = Inr fig"
    by blast
  with t have "scatter_points fig =
      map (plot_row Payload_Mass_kg class_col Booster_Version_Category Payload_Mass_kg
             (if ''SiteA'' = ''ALL'' then [Launch_Site] else []))
        (filter (\<lambda>r. 0 \<le> Payload_Mass_kg r \<and> Payload_Mass_kg r \<le> 650
                    \<and> (''SiteA'' \<noteq> ''ALL'' \<longrightarrow> Launch_Site r = ''SiteA''))
           example_table)"
    by blast
  then have "scatter_points fig =
         [\<lparr>point_x = 500, point_y = 1, point_color = ''v1'', point_size = 500,
           point_hover_data = []\<rparr>]"
    by (simp add: example_table_def plot_row_def)
  with f show ?thesis by blast
qed

text \<open>
  Claim C5. With low > high, \<open>get_scatter_chart\<close> returns a figure, for every
  table and every site, and the figure has no point.
\<close>

theorem inverted_range_empty:
  assumes "high < low"
  shows "\<exists>fig. get_scatter_chart spacex_df entered_site [low, high] = Inr fig
           \<and> scatter_points fig = []"
proof -
  from assms have "payload_df spacex_df low high = []"
    by (auto simp: payload_df_def filter_empty_conv)
  then show ?thesis
    by (simp add: px_scatter_def site_df_def)
qed

theorem inverted_range_empty_witness:
  "get_scatter_chart example_table ''ALL'' [700, 650] =
     Inr \<lparr>scatter_points = [],
          scatter_title = ''Correlation between Payload and Success for all Sites''\<rparr>"
proof -
  have h: "(650::int) < 700" by simp
  from inverted_range_empty [OF h, of example_table "''ALL''"]
  obtain fig where f: "get_scatter_chart example_table ''ALL'' [700, 650] = Inr fig"
    and p: "scatter_points fig = []"
    by blast
  have "get_scatter_chart example_table ''ALL'' [700, 650] =
      Inr \<lparr>scatter_points = scatter_points fig,
           scatter_title = ''Correlation between Payload and Success for all Sites''\<rparr>"
    using f by (auto simp: px_scatter_def Let_def split: if_splits)
  with p show ?thesis by simp
qed

text \<open>
  Claim C9. Every point of a figure \<open>get_scatter_chart\<close> returns comes from a
  row of the table and carries that row's payload mass as x and again as marker
  size, its class as y and its booster version category as colour. Its hover
  data is the row's launch site when the site is "ALL" and is empty for a single
  site.
\<close>

theorem scatter_point_encoding:
  assumes "get_scatter_chart spacex_df entered_site [low, high] = Inr fig"
  shows "\<forall>p\<in>set (scatter_points fig).
           point_size p = point_x p
           \<and> (\<exists>r\<in>set spacex_df.
                 point_x p = Payload_Mass_kg r \<and> point_y p = class_col r
                 \<and> point_color p = Booster_Version_Category r
                 \<and> point_size p = Payload_Mass_kg r
                 \<and> point_hover_data p = (if entered_site = ''ALL'' then [Launch_Site r] else []))"
proof
  fix p
  assume p: "p \<in> set (scatter_points fig)"
  from assms have "scatter_points fig =
      map (plot_row Payload_Mass_kg class_col Booster_Version_Category Payload_Mass_kg
             (if entered_site = ''ALL'' then [Launch_Site] else []))
        (filter (\<lambda>r. low \<le> Payload_Mass_kg r \<and> Payload_Mass_kg r \<le> high
                    \<and> (entered_site \<noteq> ''ALL'' \<longrightarrow> Launch_Site r = entered_site))
           spacex_df)"
    by (rule scatter_points_of_chart)
  with p obtain r where r: "r \<in> set spacex_df"
    and pr: "p = plot_row Payload_Mass_kg class_col Booster_Version_Category Payload_Mass_kg
             (if entered_site = ''ALL'' then [Launch_Site] else []) r"
    by auto
  from pr have "point_size p = point_x p"
    by (simp add: plot_row_def)
  moreover from pr have "point_x p = Payload_Mass_kg r \<and> point_y p = class_col r
                 \<and> point_color p = Booster_Version_Category r
                 \<and> point_size p = Payload_Mass_kg r
                 \<and> point_hover_data p = (if entered_site = ''ALL'' then [Launch_Site r] else [])"
    by (simp add: plot_row_def)
  ultimately show "point_size p = point_x p
           \<and> (\<exists>r\<in>set spacex_df.
                 point_x p = Payload_Mass_kg r \<and> point_y p = class_col r
                 \<and> point_color p = Booster_Version_Category r
                 \<and> point_size p = Payload_Mass_kg r
                 \<and> point_hover_data p = (if entered_site = ''ALL'' then [Launch_Site r] else []))"
    using r by blast
qed

theorem scatter_point_encoding_witness:
  "get_scatter_chart example_table ''ALL'' [0, 650] =
     Inr \<lparr>scatter_points =
            [\<lparr>point_x = 500, point_y = 1, point_color = ''v1'', point_size = 500,
              point_hover_data = [''SiteA'']\<rparr>,
             \<lparr>point_x = 600, point_y = 1, point_color = ''v2'', point_size = 600,
              point_hover_data = [''SiteB'']\<rparr>],
          scatter_title = ''Correlation between Payload and Success for all Sites''\<rparr>
   \<and> list_all (\<lambda>p. point_size p = point_x p)
       [\<lparr>point_x = 500::int, point_y = 1, point_color = ''v1'', point_size = 500,
         point_hover_data = [''SiteA'']\<rparr>,
        \<lparr>point_x = 600, point_y = 1, point_color = ''v2'', point_size = 600,
         point_hover_data = [''SiteB'']\<rparr>]"
proof -
  have h: "get_scatter_chart example_table ''ALL'' [0, 650] =
     Inr \<lparr>scatter_points =
            [\<lparr>point_x = 500, point_y = 1, point_color = ''v1'', point_size = 500,
              point_hover_data = [''SiteA'']\<rparr>,
             \<lparr>point_x = 600, point_y = 1, point_color = ''v2'', point_size = 600,
              point_hover_data = [''SiteB'']\<rparr>],
          scatter_title = ''Correlation between Payload and Success for all Sites''\<rparr>"
    by code_simp
  from scatter_point_encoding [OF h] h show ?thesis
    by (simp add: list_all_iff)
qed

section \<open>The callbacks leave the table alone\<close>










text \<open>
  The calls do write to the module. Serving the example calls on the example
  table sends, for the first call, the pie figure with the layout written into
  it, and leaves four objects where there was one: the table and the three
  figures.
\<close>

lemma example_pie_call_sent:
  "map_option (\<lambda>p. take 1 (fst p)) (serve (load_module example_table) example_calls)
     = Some [Inr (Figure
                (Inl \<lparr>pie_names = [''Failed'', ''Success''], pie_values = [1, 1],
                      pie_title = ''Total Success Launches for site SiteA''\<rparr>)
                [(''title_font_size'', Number 20), (''title_x'', Number (1 / 2)),
                 (''font'', Props [(''size'', Number 14)])])]"
  by code_simp

lemma example_calls_grow_heap:
  "map_option (\<lambda>p. length (heap (snd p))) (serve (load_module example_table) example_calls)
     = Some 4"
  by code_simp

text \<open>
  Claim C10. The pie figure does not depend on the payload slider: two states of
  the controls that differ in the payload range alone give the same pie figure.
\<close>

theorem pie_ignores_payload_slider:
  "fst (update_figures spacex_df (c\<lparr>payload_slider := range1\<rparr>))
     = fst (update_figures spacex_df (c\<lparr>payload_slider := range2\<rparr>))"
  by (simp add: update_figures_def)

end
